theory Spec2Isabelle
  imports Main
begin

section \<open>The CSS language service adapter (diagnostics/lit-css/vscode-css-service.ts)\<close>

subsection \<open>Data shapes of the CSS language service\<close>

text \<open>
  The adapter talks to the CSS language service through the shapes of the language-server
  protocol. Lines, characters and line counts are the protocol's unsigned integers; offsets
  into the virtual document are plain numbers that the adapter only passes on.
\<close>

record Position =
  line :: nat
  character :: nat

record vscode_Range =
  start :: Position
  "end" :: Position

datatype DiagnosticSeverity = Error | Warning | Information | Hint

record vscode_Diagnostic =
  range :: vscode_Range
  severity :: "DiagnosticSeverity option"
  message :: string

text \<open>
  The switch of \<open>translateCompletionItemKind\<close> names eighteen members of the service's enum;
  \<open>OtherCompletionItemKind\<close> stands for every member it does not name.
\<close>

datatype CompletionItemKind =
  Text | Method | Function | Constructor | Field | Variable | Class | Interface
  | Module | Property | Unit | Value | Enum | Keyword | Snippet | Color | File | Reference
  | OtherCompletionItemKind nat

text \<open>An item's documentation is a string or a markup object with a \<open>value\<close>.\<close>

datatype Documentation = DocString string | DocMarkup string

record CompletionItem =
  label :: string
  kind :: "CompletionItemKind option"
  documentation :: "Documentation option"

record CompletionList =
  items :: "CompletionItem list"

text \<open>
  One hover content is a plain string, a \<open>{language, value}\<close> object or a markup object
  \<open>{kind, value}\<close>; a hover carries one content or an array of them.
\<close>

datatype HoverContent =
  ContentString string
  | ContentCode string string
  | ContentMarkup string string

datatype HoverContents = SingleContent HoverContent | ContentArray "HoverContent list"

record Hover =
  contents :: HoverContents
  range :: "vscode_Range option"

record TextDocument =
  lineCount :: nat
  offsetAt :: "Position \<Rightarrow> int"
  positionAt :: "int \<Rightarrow> Position"

typedecl Stylesheet
typedecl IAtDirectiveData
typedecl IPseudoClassData
typedecl IPropertyData

record IPseudoElementData =
  browsers :: "string list"
  description :: "string option"
  name :: string
  status :: string

record ICSSDataProvider =
  providePseudoElements :: "unit \<Rightarrow> IPseudoElementData list"
  provideAtDirectives :: "unit \<Rightarrow> IAtDirectiveData list"
  providePseudoClasses :: "unit \<Rightarrow> IPseudoClassData list"
  provideProperties :: "unit \<Rightarrow> IPropertyData list"

record LanguageServiceOptions =
  customDataProviders :: "ICSSDataProvider list"

record LanguageService =
  doValidation :: "TextDocument \<Rightarrow> Stylesheet \<Rightarrow> vscode_Diagnostic list"
  doHover :: "TextDocument \<Rightarrow> Position \<Rightarrow> Stylesheet \<Rightarrow> Hover option"
  doComplete :: "TextDocument \<Rightarrow> Position \<Rightarrow> Stylesheet \<Rightarrow> CompletionList"
  parseStylesheet :: "TextDocument \<Rightarrow> Stylesheet"

text \<open>
  The module \<open>vscode-css-languageservice\<close>, imported as \<open>vscode\<close>: the three entry points
  the adapter calls. The library is not part of this repository; every operation below takes
  it as its first argument.
\<close>

record vscode_module =
  TextDocument_create :: "string \<Rightarrow> string \<Rightarrow> int \<Rightarrow> string \<Rightarrow> TextDocument"
  getCSSLanguageService :: "LanguageServiceOptions \<Rightarrow> LanguageService"
  getSCSSLanguageService :: "LanguageServiceOptions \<Rightarrow> LanguageService"

subsection \<open>Data shapes of the plugin\<close>

record VirtualDocument =
  "text" :: string

record CssDocument =
  virtualDocument :: VirtualDocument

text \<open>
  A global tag of the store, with the three fields the data provider reads; \<open>builtIn\<close> is
  the flag that \<open>update\<close> negates.
\<close>

record StoreHtmlTag =
  tagName :: string
  builtIn :: bool
  description :: "string option"

record TsLitPluginStore =
  getGlobalTags :: "unit \<Rightarrow> StoreHtmlTag list"

record DiagnosticsContext =
  store :: TsLitPluginStore

record Range =
  start :: int
  "end" :: int

record LitCssDiagnostic =
  severity :: string
  location :: Range
  message :: string

record LitQuickInfo =
  primaryInfo :: string
  secondaryInfo :: "string option"
  range :: Range

text \<open>
  A completion of the plugin. \<open>documentation\<close> holds what the helper \<open>lazy\<close> returns, so
  its type is left open; \<open>range\<close> and \<open>kindModifiers\<close> are optional fields.
\<close>

record 'doc LitCompletion =
  kind :: string
  insert :: string
  name :: string
  kindModifiers :: "string option"
  importance :: string
  documentation :: 'doc
  range :: "Range option"

subsection \<open>LitVscodeCSSDataProvider\<close>

text \<open>
  The class has one mutable field. Its provider object reads that field whenever
  \<open>providePseudoElements\<close> is called, so the provider is a function of the current state.
\<close>

record LitVscodeCSSDataProvider =
  pseudoElementData :: "IPseudoElementData list"

definition LitVscodeCSSDataProvider_new :: LitVscodeCSSDataProvider where
  "LitVscodeCSSDataProvider_new = \<lparr>pseudoElementData = []\<rparr>"

definition customDataProvider :: "LitVscodeCSSDataProvider \<Rightarrow> ICSSDataProvider" where
  "customDataProvider provider =
     \<lparr>providePseudoElements = (\<lambda>_. pseudoElementData provider),
      provideAtDirectives = (\<lambda>_. []),
      providePseudoClasses = (\<lambda>_. []),
      provideProperties = (\<lambda>_. [])\<rparr>"

definition provider :: "LitVscodeCSSDataProvider \<Rightarrow> ICSSDataProvider" where
  "provider self = customDataProvider self"

text \<open>
  Modelled from the spec: the helpers \<open>iterableFilter\<close> and \<open>iterableMap\<close> of
  util/iterable-util are not among these files. By their names and their use in \<open>update\<close>
  they keep the elements of an iterable that satisfy a predicate, and apply a function to
  every element, both in the iterable's order. An iterable is a list here, and \<open>Array.from\<close>
  of it is the list itself.
\<close>

definition iterableFilter :: "'a list \<Rightarrow> ('a \<Rightarrow> bool) \<Rightarrow> 'a list" where
  "iterableFilter iterable predicate = filter predicate iterable"

definition iterableMap :: "'a list \<Rightarrow> ('a \<Rightarrow> 'b) \<Rightarrow> 'b list" where
  "iterableMap iterable f = map f iterable"

definition update :: "LitVscodeCSSDataProvider \<Rightarrow> TsLitPluginStore \<Rightarrow> LitVscodeCSSDataProvider" where
  "update self store' =
     self\<lparr>pseudoElementData :=
       iterableMap
         (iterableFilter (getGlobalTags store' ()) (\<lambda>tag. \<not> builtIn tag))
         (\<lambda>tag. \<lparr>browsers = [],
                  IPseudoElementData.description = StoreHtmlTag.description tag,
                  IPseudoElementData.name = tagName tag,
                  status = ''standard''\<rparr>)\<rparr>"

subsection \<open>VscodeCssService\<close>

record VscodeCssService =
  dataProvider :: LitVscodeCSSDataProvider

definition VscodeCssService_new :: VscodeCssService where
  "VscodeCssService_new = \<lparr>dataProvider = LitVscodeCSSDataProvider_new\<rparr>"

definition makeVscTextDocument :: "vscode_module \<Rightarrow> CssDocument \<Rightarrow> TextDocument" where
  "makeVscTextDocument vscode cssDocument =
     TextDocument_create vscode ''untitled://embedded.css'' ''css'' 1
       (text (virtualDocument cssDocument))"

definition cssService :: "vscode_module \<Rightarrow> VscodeCssService \<Rightarrow> LanguageService" where
  "cssService vscode self =
     getCSSLanguageService vscode \<lparr>customDataProviders = [provider (dataProvider self)]\<rparr>"

definition scssService :: "vscode_module \<Rightarrow> VscodeCssService \<Rightarrow> LanguageService" where
  "scssService vscode self =
     getSCSSLanguageService vscode \<lparr>customDataProviders = [provider (dataProvider self)]\<rparr>"

definition makeVscStylesheet :: "vscode_module \<Rightarrow> VscodeCssService \<Rightarrow> TextDocument \<Rightarrow> Stylesheet" where
  "makeVscStylesheet vscode self vscTextDocument =
     parseStylesheet (scssService vscode self) vscTextDocument"

fun translateCompletionItemKind :: "CompletionItemKind \<Rightarrow> string" where
  "translateCompletionItemKind Method = ''memberFunctionElement''"
| "translateCompletionItemKind Function = ''functionElement''"
| "translateCompletionItemKind Constructor = ''constructorImplementationElement''"
| "translateCompletionItemKind Field = ''variableElement''"
| "translateCompletionItemKind Variable = ''variableElement''"
| "translateCompletionItemKind Class = ''classElement''"
| "translateCompletionItemKind Interface = ''interfaceElement''"
| "translateCompletionItemKind Module = ''moduleElement''"
| "translateCompletionItemKind Property = ''memberVariableElement''"
| "translateCompletionItemKind Unit = ''constElement''"
| "translateCompletionItemKind Value = ''constElement''"
| "translateCompletionItemKind Enum = ''enumElement''"
| "translateCompletionItemKind Keyword = ''keyword''"
| "translateCompletionItemKind Color = ''constElement''"
| "translateCompletionItemKind Reference = ''alias''"
| "translateCompletionItemKind File = ''moduleElement''"
| "translateCompletionItemKind Snippet = ''unknown''"
| "translateCompletionItemKind Text = ''unknown''"
| "translateCompletionItemKind (OtherCompletionItemKind n) = ''unknown''"

text \<open>
  The filter and the map of \<open>getDiagnostics\<close>, in the order of the source. The subtraction
  \<open>lineCount - 1\<close> is JavaScript's, so it is carried out on integers.
\<close>

definition getDiagnostics ::
  "vscode_module \<Rightarrow> VscodeCssService \<Rightarrow> CssDocument \<Rightarrow> DiagnosticsContext
     \<Rightarrow> LitCssDiagnostic list \<times> VscodeCssService" where
  "getDiagnostics vscode self document context =
     (let self' = self\<lparr>dataProvider := update (dataProvider self) (store context)\<rparr>;
          vscTextDocument = makeVscTextDocument vscode document;
          vscStylesheet = makeVscStylesheet vscode self' vscTextDocument;
          diagnostics = doValidation (scssService vscode self') vscTextDocument vscStylesheet
      in (map (\<lambda>diagnostic.
                \<lparr>LitCssDiagnostic.severity =
                   (if vscode_Diagnostic.severity diagnostic = Some Error
                    then ''error'' else ''warning''),
                 location =
                   \<lparr>Range.start =
                      offsetAt vscTextDocument
                        (vscode_Range.start (vscode_Diagnostic.range diagnostic)),
                    Range.end =
                      offsetAt vscTextDocument
                        (vscode_Range.end (vscode_Diagnostic.range diagnostic))\<rparr>,
                 LitCssDiagnostic.message = vscode_Diagnostic.message diagnostic\<rparr>)
            (filter (\<lambda>diagnostic.
                line (vscode_Range.start (vscode_Diagnostic.range diagnostic)) \<noteq> 0
                \<and> int (line (vscode_Range.start (vscode_Diagnostic.range diagnostic)))
                    < int (lineCount vscTextDocument) - 1)
              diagnostics),
          self'))"

text \<open>
  The loop of \<open>getQuickInfo\<close> over the hover contents, with its two mutable variables as
  accumulators. A \<open>{language, value}\<close> object sets \<open>primaryInfo\<close> when its language is
  \<open>html\<close> and is skipped otherwise; a string or a markup object sets \<open>secondaryInfo\<close>.
\<close>

fun contentText :: "HoverContent \<Rightarrow> string" where
  "contentText (ContentString content) = content"
| "contentText (ContentCode lang val) = val"
| "contentText (ContentMarkup markupKind val) = val"

fun getQuickInfo_loop ::
  "HoverContent list \<Rightarrow> string option \<Rightarrow> string option \<Rightarrow> string option \<times> string option" where
  "getQuickInfo_loop [] primaryInfo' secondaryInfo' = (primaryInfo', secondaryInfo')"
| "getQuickInfo_loop (content # rest) primaryInfo' secondaryInfo' =
     (let txt = contentText content in
      case content of
        ContentCode lang val \<Rightarrow>
          if lang = ''html''
          then getQuickInfo_loop rest
                 (Some ((if primaryInfo' = None then '''' else [CHR 0x0A, CHR 0x0A]) @ txt))
                 secondaryInfo'
          else getQuickInfo_loop rest primaryInfo' secondaryInfo'
      | _ \<Rightarrow> getQuickInfo_loop rest primaryInfo' (Some txt))"

definition getQuickInfo ::
  "vscode_module \<Rightarrow> VscodeCssService \<Rightarrow> CssDocument \<Rightarrow> int \<Rightarrow> DiagnosticsContext
     \<Rightarrow> LitQuickInfo option \<times> VscodeCssService" where
  "getQuickInfo vscode self document offset context =
     (let self' = self\<lparr>dataProvider := update (dataProvider self) (store context)\<rparr>;
          vscTextDocument = makeVscTextDocument vscode document;
          vscStylesheet = makeVscStylesheet vscode self' vscTextDocument;
          vscPosition = positionAt vscTextDocument offset;
          hover = doHover (scssService vscode self') vscTextDocument vscPosition vscStylesheet
      in case hover of
           None \<Rightarrow> (None, self')
         | Some hover \<Rightarrow>
             (case Hover.range hover of
                None \<Rightarrow> (None, self')
              | Some hoverRange \<Rightarrow>
                  (let contents' =
                         (case contents hover of
                            ContentArray array \<Rightarrow> array
                          | SingleContent content \<Rightarrow> [content]);
                       (primaryInfo', secondaryInfo') = getQuickInfo_loop contents' None None
                   in (Some \<lparr>primaryInfo =
                                (case primaryInfo' of
                                   None \<Rightarrow> ''''
                                 | Some info \<Rightarrow> if info = '''' then '''' else info),
                              secondaryInfo = secondaryInfo',
                              LitQuickInfo.range =
                                \<lparr>Range.start =
                                   offsetAt vscTextDocument (vscode_Range.start hoverRange),
                                 Range.end =
                                   offsetAt vscTextDocument (vscode_Range.end hoverRange)\<rparr>\<rparr>,
                       self'))))"

definition startsWith :: "string \<Rightarrow> string \<Rightarrow> bool" where
  "startsWith s searchString = (take (length searchString) s = searchString)"

text \<open>
  \<open>getCompletions\<close> wraps the documentation of each item with the helper \<open>lazy\<close> of
  util/util, which is taken as the argument \<open>lazy\<close>.
\<close>

definition getCompletions ::
  "vscode_module \<Rightarrow> ((unit \<Rightarrow> string option) \<Rightarrow> 'doc) \<Rightarrow> VscodeCssService \<Rightarrow> CssDocument
     \<Rightarrow> int \<Rightarrow> DiagnosticsContext \<Rightarrow> 'doc LitCompletion list \<times> VscodeCssService" where
  "getCompletions vscode lazy self document offset context =
     (let self' = self\<lparr>dataProvider := update (dataProvider self) (store context)\<rparr>;
          vscTextDocument = makeVscTextDocument vscode document;
          vscStylesheet = makeVscStylesheet vscode self' vscTextDocument;
          vscPosition = positionAt vscTextDocument offset;
          items' = doComplete (cssService vscode self') vscTextDocument vscPosition vscStylesheet
      in (map (\<lambda>i.
                \<lparr>LitCompletion.kind =
                   (case CompletionItem.kind i of
                      None \<Rightarrow> ''unknown''
                    | Some k \<Rightarrow> translateCompletionItemKind k),
                 insert = label i,
                 LitCompletion.name = label i,
                 kindModifiers =
                   (if CompletionItem.kind i = Some Color then Some ''color'' else None),
                 importance =
                   (if startsWith (label i) ''@'' \<or> startsWith (label i) ''-'' then ''low''
                    else if startsWith (label i) '':'' then ''medium''
                    else ''high''),
                 LitCompletion.documentation =
                   lazy (\<lambda>_. case CompletionItem.documentation i of
                                None \<Rightarrow> None
                              | Some (DocString s) \<Rightarrow> Some s
                              | Some (DocMarkup v) \<Rightarrow> Some v),
                 LitCompletion.range = None\<rparr>)
            (items items'),
          self'))"

section \<open>Merging custom metadata onto the HTML5 data (getHtmlData)\<close>

text \<open>
  The type library's \<open>SimpleTypeKind\<close>: the source names the member \<open>ANY\<close> only;
  \<open>OtherSimpleTypeKind\<close> stands for every other member, by its name. A type carries its
  kind and further fields that depend on the kind; the literal \<open>{ kind: ANY }\<close> of the source
  has none.
\<close>

datatype SimpleTypeKind = ANY | OtherSimpleTypeKind string

record 'f SimpleType =
  kind :: SimpleTypeKind
  rest :: "'f option"

record 'f HtmlTagAttr =
  name :: string
  "type" :: "'f SimpleType"

record 'f HtmlTag =
  name :: string
  attributes :: "'f HtmlTagAttr list"
  hasDeclaration :: "bool option"
  description :: "string option"

text \<open>
  The result of \<open>parseHtmlData\<close> and the configuration have more fields than the two that
  \<open>getHtmlData\<close> touches; both are used through their record schemes, and the object spread
  of the source is a record update, which keeps every other field.
\<close>

record 'f HtmlDataResult =
  tags :: "'f HtmlTag list"
  globalAttrs :: "'f HtmlTagAttr list"

record Config =
  globalHtmlTags :: "string list"
  globalHtmlAttributes :: "string list"

text \<open>
  The data module of the HTML language service (its four constants) and the argument that
  \<open>getHtmlData\<close> builds from them for \<open>parseHtmlData\<close>. Neither the constants nor
  \<open>parseHtmlData\<close> nor \<open>html5TagAttrType\<close> belong to these files: \<open>getHtmlData\<close> takes
  them as arguments.
\<close>

record ('t, 'a, 'v) html5_module =
  HTML5_EVENTS :: "'a list"
  HTML5_GLOBAL_ATTRIBUTES :: "'a list"
  HTML5_TAGS :: "'t list"
  HTML5_VALUE_MAP :: 'v

record ('t, 'a, 'v) HTMLDataV1 =
  version :: nat
  tags :: "'t list"
  globalAttributes :: "'a list"
  valueSets :: 'v

definition getHtmlData ::
  "('t, 'a, 'v) html5_module
     \<Rightarrow> (('t, 'a, 'v) HTMLDataV1 \<Rightarrow> ('f, 'z) HtmlDataResult_scheme)
     \<Rightarrow> (string \<Rightarrow> 'f SimpleType)
     \<Rightarrow> 'c Config_scheme
     \<Rightarrow> ('f, 'z) HtmlDataResult_scheme" where
  "getHtmlData html5 parseHtmlData html5TagAttrType config =
     (let result = parseHtmlData
            \<lparr>version = 1,
             HTMLDataV1.tags = HTML5_TAGS html5,
             globalAttributes = HTML5_GLOBAL_ATTRIBUTES html5 @ HTML5_EVENTS html5,
             valueSets = HTML5_VALUE_MAP html5\<rparr>;
          result = result\<lparr>HtmlDataResult.tags :=
            HtmlDataResult.tags result @
              [\<lparr>HtmlTag.name = ''svg'', attributes = [],
                hasDeclaration = Some False, HtmlTag.description = Some ''''\<rparr>]\<rparr>;
          result = result\<lparr>HtmlDataResult.tags :=
            HtmlDataResult.tags result @
              map (\<lambda>tagName'.
                    \<lparr>HtmlTag.name = tagName', attributes = [],
                     hasDeclaration = None, HtmlTag.description = None\<rparr>)
                  (globalHtmlTags config)\<rparr>;
          result = result\<lparr>globalAttrs :=
            globalAttrs result @
              map (\<lambda>attrName.
                    \<lparr>HtmlTagAttr.name = attrName,
                     type = \<lparr>SimpleType.kind = ANY, rest = None\<rparr>\<rparr>)
                  (globalHtmlAttributes config)\<rparr>
      in result
           \<lparr>HtmlDataResult.tags :=
              map (\<lambda>tag. tag\<lparr>attributes :=
                     map (\<lambda>attr. attr\<lparr>type :=
                            if SimpleType.kind (type attr) = ANY
                            then html5TagAttrType (HtmlTagAttr.name attr)
                            else type attr\<rparr>)
                         (attributes tag)\<rparr>)
                  (HtmlDataResult.tags result),
            globalAttrs :=
              map (\<lambda>attr. attr\<lparr>type :=
                     if SimpleType.kind (type attr) = ANY
                     then html5TagAttrType (HtmlTagAttr.name attr)
                     else type attr\<rparr>)
                  (globalAttrs result)\<rparr>)"

section \<open>Completions at an offset (completions-at-offset.ts)\<close>

text \<open>
  The document's three lookups are methods of the class \<open>HtmlDocument\<close>; the position context
  and the three completion providers are imported functions. None of them belongs to these
  files: the lookups are fields of the document, the functions are arguments of
  \<open>completionsAtOffset\<close>. A lookup that finds nothing returns \<open>undefined\<close>, which is \<open>None\<close>.
\<close>

record HtmlNodeAttrLocation =
  name :: Range

record 'node HtmlNodeAttr =
  htmlNode :: 'node
  location :: HtmlNodeAttrLocation

record ('node, 'assignment) HtmlDocument =
  htmlAttrNameAtOffset :: "int \<Rightarrow> 'node HtmlNodeAttr option"
  htmlAttrAreaAtOffset :: "int \<Rightarrow> 'node option"
  htmlAttrAssignmentAtOffset :: "int \<Rightarrow> 'assignment option"

record DocumentPositionContext =
  beforeWord :: string

definition completionsAtOffset ::
  "(('node, 'assignment) HtmlDocument \<Rightarrow> int \<Rightarrow> 'p DocumentPositionContext_scheme)
     \<Rightarrow> ('node \<Rightarrow> DiagnosticsContext \<Rightarrow> 'doc LitCompletion list)
     \<Rightarrow> ('assignment \<Rightarrow> DiagnosticsContext \<Rightarrow> 'doc LitCompletion list)
     \<Rightarrow> ('p DocumentPositionContext_scheme \<Rightarrow> DiagnosticsContext \<Rightarrow> 'doc LitCompletion list)
     \<Rightarrow> ('node, 'assignment) HtmlDocument \<Rightarrow> int \<Rightarrow> DiagnosticsContext
     \<Rightarrow> 'doc LitCompletion list" where
  "completionsAtOffset getPositionContextInDocument completionsForHtmlAttrs
       completionsForHtmlAttrValues completionsForHtmlNodes document offset context =
     (let positionContext = getPositionContextInDocument document offset;
          beforeWord' = beforeWord positionContext;
          intersectingAttr = htmlAttrNameAtOffset document offset;
          intersectingAttrAreaNode = htmlAttrAreaAtOffset document offset;
          intersectingAttrAssignment = htmlAttrAssignmentAtOffset document offset
      in case intersectingAttr of
           Some attr \<Rightarrow>
             (let entries = completionsForHtmlAttrs (htmlNode attr) context
              in map (\<lambda>entry. entry\<lparr>LitCompletion.range :=
                        Some (HtmlNodeAttrLocation.name (HtmlNodeAttr.location attr))\<rparr>)
                     entries)
         | None \<Rightarrow>
             (case intersectingAttrAssignment of
                Some assignment \<Rightarrow> completionsForHtmlAttrValues assignment context
              | None \<Rightarrow>
                  (case intersectingAttrAreaNode of
                     Some node \<Rightarrow> completionsForHtmlAttrs node context
                   | None \<Rightarrow>
                       if beforeWord' = ''<''
                       then completionsForHtmlNodes positionContext context
                       else [])))"

section \<open>Code fixes (the LitCodeFix union)\<close>

text \<open>
  \<open>LitHtmlDiagnostic\<close> is the union of the diagnostics of the html analysis. The source
  names five of its members; \<open>LitHtmlDiagnosticOther\<close> stands for the members it does not
  name. The fields of a diagnostic are the argument \<open>'d\<close>.
\<close>

datatype CodeFixKind = RENAME | CHANGE_LIT_MODIFIER | IMPORT_COMPONENT

datatype 'd LitHtmlDiagnostic =
  LitHtmlDiagnosticUnknownAttribute 'd
  | LitHtmlDiagnosticUnknownTag 'd
  | LitHtmlDiagnosticHtmlBoolMod 'd
  | LitHtmlDiagnosticPrimitiveNotAssignableToComplex 'd
  | LitHtmlDiagnosticMissingImport 'd
  | LitHtmlDiagnosticOther 'd

text \<open>
  Each of the three interfaces narrows \<open>htmlReport\<close> of \<open>CodeFixBase\<close> to a union of
  its own; the three datatypes below are these unions.
\<close>

datatype 'd CodeFixRename_htmlReport =
  Rename_UnknownAttribute 'd
  | Rename_UnknownTag 'd

datatype 'd CodeFixChangeLitModifier_htmlReport =
  ChangeLitModifier_HtmlBoolMod 'd
  | ChangeLitModifier_PrimitiveNotAssignableToComplex 'd

datatype 'd CodeFixImportComponent_htmlReport =
  ImportComponent_MissingImport 'd

text \<open>
  \<open>LitCodeFix\<close> is the union of the three interfaces. Each constructor takes the fields of
  \<open>CodeFixBase\<close> in the order message, htmlReport, actions; the field \<open>kind\<close> of an
  interface is a single enum member, so it is a function of the constructor.
\<close>

datatype ('d, 'action) LitCodeFix =
  CodeFixRename string "'d CodeFixRename_htmlReport" "'action list"
  | CodeFixChangeLitModifier string "'d CodeFixChangeLitModifier_htmlReport" "'action list"
  | CodeFixImportComponent string "'d CodeFixImportComponent_htmlReport" "'action list"

fun codeFix_kind :: "('d, 'action) LitCodeFix \<Rightarrow> CodeFixKind" where
  "codeFix_kind (CodeFixRename m r acts) = RENAME"
| "codeFix_kind (CodeFixChangeLitModifier m r acts) = CHANGE_LIT_MODIFIER"
| "codeFix_kind (CodeFixImportComponent m r acts) = IMPORT_COMPONENT"

text \<open>The report of a fix, seen at the type \<open>LitHtmlDiagnostic\<close> of \<open>CodeFixBase\<close>.\<close>

fun codeFix_htmlReport :: "('d, 'action) LitCodeFix \<Rightarrow> 'd LitHtmlDiagnostic" where
  "codeFix_htmlReport (CodeFixRename m (Rename_UnknownAttribute d) acts) =
     LitHtmlDiagnosticUnknownAttribute d"
| "codeFix_htmlReport (CodeFixRename m (Rename_UnknownTag d) acts) =
     LitHtmlDiagnosticUnknownTag d"
| "codeFix_htmlReport (CodeFixChangeLitModifier m (ChangeLitModifier_HtmlBoolMod d) acts) =
     LitHtmlDiagnosticHtmlBoolMod d"
| "codeFix_htmlReport
     (CodeFixChangeLitModifier m (ChangeLitModifier_PrimitiveNotAssignableToComplex d) acts) =
     LitHtmlDiagnosticPrimitiveNotAssignableToComplex d"
| "codeFix_htmlReport (CodeFixImportComponent m (ImportComponent_MissingImport d) acts) =
     LitHtmlDiagnosticMissingImport d"

section \<open>Concrete inputs\<close>

text \<open>
  Small concrete inputs on which the theorems below are instantiated. The text document has
  three lines of a hundred characters; the language service reports four diagnostics, one
  on the first line, two on the middle line and one on the last line.
\<close>

definition ex_textDocument :: TextDocument where
  "ex_textDocument =
     \<lparr>lineCount = 3,
      offsetAt = (\<lambda>p. int (line p) * 100 + int (character p)),
      positionAt = (\<lambda>off. \<lparr>line = nat (off div 100), character = nat (off mod 100)\<rparr>)\<rparr>"

definition ex_diagnostics :: "vscode_Diagnostic list" where
  "ex_diagnostics =
     [\<lparr>vscode_Diagnostic.range =
         \<lparr>vscode_Range.start = \<lparr>line = 0, character = 2\<rparr>,
          vscode_Range.end = \<lparr>line = 0, character = 5\<rparr>\<rparr>,
       vscode_Diagnostic.severity = Some Error,
       vscode_Diagnostic.message = ''first''\<rparr>,
      \<lparr>vscode_Diagnostic.range =
         \<lparr>vscode_Range.start = \<lparr>line = 1, character = 4\<rparr>,
          vscode_Range.end = \<lparr>line = 1, character = 9\<rparr>\<rparr>,
       vscode_Diagnostic.severity = Some Error,
       vscode_Diagnostic.message = ''unknown property''\<rparr>,
      \<lparr>vscode_Diagnostic.range =
         \<lparr>vscode_Range.start = \<lparr>line = 1, character = 12\<rparr>,
          vscode_Range.end = \<lparr>line = 2, character = 1\<rparr>\<rparr>,
       vscode_Diagnostic.severity = None,
       vscode_Diagnostic.message = ''empty rule''\<rparr>,
      \<lparr>vscode_Diagnostic.range =
         \<lparr>vscode_Range.start = \<lparr>line = 2, character = 0\<rparr>,
          vscode_Range.end = \<lparr>line = 2, character = 1\<rparr>\<rparr>,
       vscode_Diagnostic.severity = Some Warning,
       vscode_Diagnostic.message = ''last''\<rparr>]"

definition ex_hover :: "Position \<Rightarrow> Hover option" where
  "ex_hover p =
     (if line p = 0 then None
      else if line p = 1
      then Some \<lparr>contents = ContentArray [ContentCode ''css'' ''color'', ContentString ''a colour''],
                 Hover.range = Some \<lparr>vscode_Range.start = p,
                                     vscode_Range.end = p\<lparr>character := character p + 5\<rparr>\<rparr>\<rparr>
      else Some \<lparr>contents = SingleContent (ContentString ''no range''), Hover.range = None\<rparr>)"

definition ex_items :: "CompletionItem list" where
  "ex_items =
     [\<lparr>label = ''@media'', CompletionItem.kind = Some Keyword,
       CompletionItem.documentation = None\<rparr>,
      \<lparr>label = '':hover'', CompletionItem.kind = None,
       CompletionItem.documentation = Some (DocString ''pseudo class'')\<rparr>,
      \<lparr>label = ''red'', CompletionItem.kind = Some Color,
       CompletionItem.documentation = Some (DocMarkup ''a colour'')\<rparr>]"

definition ex_languageService :: "LanguageServiceOptions \<Rightarrow> LanguageService" where
  "ex_languageService options =
     \<lparr>doValidation = (\<lambda>document stylesheet. ex_diagnostics),
      doHover = (\<lambda>document position stylesheet. ex_hover position),
      doComplete = (\<lambda>document position stylesheet. \<lparr>items = ex_items\<rparr>),
      parseStylesheet = (\<lambda>document. undefined)\<rparr>"

definition ex_vscode :: vscode_module where
  "ex_vscode =
     \<lparr>TextDocument_create = (\<lambda>uri languageId version' content. ex_textDocument),
      getCSSLanguageService = ex_languageService,
      getSCSSLanguageService = ex_languageService\<rparr>"

definition ex_cssDocument :: CssDocument where
  "ex_cssDocument = \<lparr>virtualDocument = \<lparr>text = ''a { colour: red }''\<rparr>\<rparr>"

definition ex_context :: DiagnosticsContext where
  "ex_context =
     \<lparr>store = \<lparr>getGlobalTags = (\<lambda>_.
        [\<lparr>tagName = ''my-element'', builtIn = False, StoreHtmlTag.description = Some ''mine''\<rparr>,
         \<lparr>tagName = ''div'', builtIn = True, StoreHtmlTag.description = None\<rparr>])\<rparr>\<rparr>"

text \<open>
  A parser that gives every tag one attribute \<open>href\<close> of kind ANY, and two versions of
  \<open>html5TagAttrType\<close>: one that knows a type for every name, one that knows none and answers
  with a type of kind ANY that carries the name.
\<close>

definition ex_html5 :: "(string, string, unit) html5_module" where
  "ex_html5 =
     \<lparr>HTML5_EVENTS = [''onclick''], HTML5_GLOBAL_ATTRIBUTES = [''id''],
      HTML5_TAGS = [''a''], HTML5_VALUE_MAP = ()\<rparr>"

definition ex_parseHtmlData :: "(string, string, unit) HTMLDataV1 \<Rightarrow> string HtmlDataResult" where
  "ex_parseHtmlData htmlData =
     \<lparr>HtmlDataResult.tags =
        map (\<lambda>t. \<lparr>HtmlTag.name = t,
                   attributes = [\<lparr>HtmlTagAttr.name = ''href'',
                                  type = \<lparr>SimpleType.kind = ANY, rest = None\<rparr>\<rparr>],
                   hasDeclaration = None, HtmlTag.description = None\<rparr>)
            (HTMLDataV1.tags htmlData),
      globalAttrs =
        map (\<lambda>a. \<lparr>HtmlTagAttr.name = a,
                   type = \<lparr>SimpleType.kind = OtherSimpleTypeKind ''STRING'', rest = None\<rparr>\<rparr>)
            (globalAttributes htmlData)\<rparr>"

definition ex_html5TagAttrType :: "string \<Rightarrow> string SimpleType" where
  "ex_html5TagAttrType attrName =
     \<lparr>SimpleType.kind = OtherSimpleTypeKind ''STRING'', rest = Some attrName\<rparr>"

definition ex_html5TagAttrType_unknown :: "string \<Rightarrow> string SimpleType" where
  "ex_html5TagAttrType_unknown attrName = \<lparr>SimpleType.kind = ANY, rest = Some attrName\<rparr>"

definition ex_config :: Config where
  "ex_config = \<lparr>globalHtmlTags = [''my-element''], globalHtmlAttributes = [''my-attr'']\<rparr>"

text \<open>
  A document with an attribute name at the offsets 10 to 14, an attribute assignment at 20,
  an attribute area at 30 and nothing elsewhere; nodes and assignments are named by strings.
  The word before the offset is \<open><\<close> at offset 40 only.
\<close>

definition ex_htmlDocument :: "(string, string) HtmlDocument" where
  "ex_htmlDocument =
     \<lparr>htmlAttrNameAtOffset =
        (\<lambda>off. if 10 \<le> off \<and> off \<le> 14
                then Some \<lparr>htmlNode = ''input'',
                           HtmlNodeAttr.location =
                             \<lparr>HtmlNodeAttrLocation.name = \<lparr>Range.start = 10, Range.end = 14\<rparr>\<rparr>\<rparr>
                else None),
      htmlAttrAreaAtOffset =
        (\<lambda>off. if off = 30 \<or> (10 \<le> off \<and> off \<le> 20) then Some ''input'' else None),
      htmlAttrAssignmentAtOffset = (\<lambda>off. if off = 20 then Some ''value='' else None)\<rparr>"

definition ex_getPositionContextInDocument ::
  "(string, string) HtmlDocument \<Rightarrow> int \<Rightarrow> DocumentPositionContext" where
  "ex_getPositionContextInDocument document off =
     \<lparr>beforeWord = (if off = 40 then ''<'' else ''x'')\<rparr>"

definition ex_completion :: "string \<Rightarrow> unit LitCompletion" where
  "ex_completion n =
     \<lparr>LitCompletion.kind = ''label'', insert = n, LitCompletion.name = n,
      kindModifiers = None, importance = ''high'', LitCompletion.documentation = (),
      LitCompletion.range = None\<rparr>"

definition ex_completionsForHtmlAttrs :: "string \<Rightarrow> DiagnosticsContext \<Rightarrow> unit LitCompletion list" where
  "ex_completionsForHtmlAttrs node context = [ex_completion (node @ ''.value''), ex_completion (node @ ''.type'')]"

definition ex_completionsForHtmlAttrValues :: "string \<Rightarrow> DiagnosticsContext \<Rightarrow> unit LitCompletion list" where
  "ex_completionsForHtmlAttrValues assignment context = [ex_completion (assignment @ ''text'')]"

definition ex_completionsForHtmlNodes ::
  "DocumentPositionContext \<Rightarrow> DiagnosticsContext \<Rightarrow> unit LitCompletion list" where
  "ex_completionsForHtmlNodes positionContext context = [ex_completion ''my-element'']"

text \<open>A version of the helper \<open>lazy\<close> that evaluates its argument at once.\<close>

definition ex_lazy :: "(unit \<Rightarrow> string option) \<Rightarrow> string option" where
  "ex_lazy f = f ()"

section \<open>Properties of the CSS language service adapter\<close>

text \<open>
  C8. \<open>translateCompletionItemKind\<close> is a total function on the completion item kinds with
  a fixed table: Field and Variable give \<open>variableElement\<close>; Unit, Value and Color give
  \<open>constElement\<close>; File and Module give \<open>moduleElement\<close>; Snippet, Text and every kind the
  switch does not name give \<open>unknown\<close>. The other kinds the switch names have the results it
  lists for them, which completes the table.
\<close>

theorem translateCompletionItemKind_table:
  "translateCompletionItemKind Field = ''variableElement''
   \<and> translateCompletionItemKind Variable = ''variableElement''
   \<and> translateCompletionItemKind Unit = ''constElement''
   \<and> translateCompletionItemKind Value = ''constElement''
   \<and> translateCompletionItemKind Color = ''constElement''
   \<and> translateCompletionItemKind File = ''moduleElement''
   \<and> translateCompletionItemKind Module = ''moduleElement''
   \<and> translateCompletionItemKind Snippet = ''unknown''
   \<and> translateCompletionItemKind Text = ''unknown''
   \<and> translateCompletionItemKind (OtherCompletionItemKind n) = ''unknown''
   \<and> translateCompletionItemKind k =
       (if k = Field \<or> k = Variable then ''variableElement''
        else if k = Unit \<or> k = Value \<or> k = Color then ''constElement''
        else if k = File \<or> k = Module then ''moduleElement''
        else if k = Method then ''memberFunctionElement''
        else if k = Function then ''functionElement''
        else if k = Constructor then ''constructorImplementationElement''
        else if k = Class then ''classElement''
        else if k = Interface then ''interfaceElement''
        else if k = Property then ''memberVariableElement''
        else if k = Enum then ''enumElement''
        else if k = Keyword then ''keyword''
        else if k = Reference then ''alias''
        else ''unknown'')"
  by (cases k) simp_all

text \<open>
  C5. After \<open>update\<close> with a store, \<open>providePseudoElements\<close> of the provider returns one
  entry for each global tag of the store that is not built in, in the store's order: its
  name is the tag's \<open>tagName\<close>, its description the tag's, its browsers list empty and its
  status \<open>standard\<close>. Tags that are built in give no entry. In every state of the provider
  the three other methods return the empty list.
\<close>

theorem update_providePseudoElements:
  "providePseudoElements (provider (update self store')) () =
     map (\<lambda>tag. \<lparr>browsers = [],
                  IPseudoElementData.description = StoreHtmlTag.description tag,
                  IPseudoElementData.name = tagName tag,
                  status = ''standard''\<rparr>)
         (filter (\<lambda>tag. builtIn tag = False) (getGlobalTags store' ()))
   \<and> provideAtDirectives (provider p) () = []
   \<and> providePseudoClasses (provider p) () = []
   \<and> provideProperties (provider p) () = []"
  by (simp add: provider_def customDataProvider_def update_def iterableMap_def iterableFilter_def)

theorem update_providePseudoElements_witness:
  "providePseudoElements (provider (update LitVscodeCSSDataProvider_new (store ex_context))) ()
     = [\<lparr>browsers = [], IPseudoElementData.description = Some ''mine'',
         IPseudoElementData.name = ''my-element'', status = ''standard''\<rparr>]
   \<and> provideAtDirectives (provider LitVscodeCSSDataProvider_new) () = []
   \<and> providePseudoClasses (provider LitVscodeCSSDataProvider_new) () = []
   \<and> provideProperties (provider LitVscodeCSSDataProvider_new) () = []"
  using update_providePseudoElements
    [of LitVscodeCSSDataProvider_new "store ex_context" LitVscodeCSSDataProvider_new]
  by (simp add: ex_context_def)

text \<open>
  C4. \<open>getDiagnostics\<close> returns one plugin diagnostic for each service diagnostic that
  passes its filter, in the same order. The severity is \<open>error\<close> exactly when the service
  diagnostic's severity is \<open>Error\<close> and \<open>warning\<close> in every other case (also when the
  service gives no severity); the message is the service's message; the start and the end
  of the location are \<open>offsetAt\<close> of the virtual text document at the start and the end of
  the service diagnostic's range.
\<close>

theorem getDiagnostics_translation:
  fixes vscode self document "context"
  defines "self' \<equiv> self\<lparr>dataProvider := update (dataProvider self) (store context)\<rparr>"
  defines "doc \<equiv> makeVscTextDocument vscode document"
  defines "kept \<equiv>
    filter (\<lambda>d. line (vscode_Range.start (vscode_Diagnostic.range d)) \<noteq> 0
               \<and> int (line (vscode_Range.start (vscode_Diagnostic.range d)))
                   < int (lineCount doc) - 1)
      (doValidation (scssService vscode self') doc (makeVscStylesheet vscode self' doc))"
  defines "out \<equiv> fst (getDiagnostics vscode self document context)"
  shows "length out = length kept
    \<and> (\<forall>i < length kept.
          (LitCssDiagnostic.severity (out ! i) = ''error''
             \<longleftrightarrow> vscode_Diagnostic.severity (kept ! i) = Some Error)
        \<and> (LitCssDiagnostic.severity (out ! i) = ''warning''
             \<longleftrightarrow> vscode_Diagnostic.severity (kept ! i) \<noteq> Some Error)
        \<and> LitCssDiagnostic.message (out ! i) = vscode_Diagnostic.message (kept ! i)
        \<and> Range.start (LitCssDiagnostic.location (out ! i))
            = offsetAt doc (vscode_Range.start (vscode_Diagnostic.range (kept ! i)))
        \<and> Range.end (LitCssDiagnostic.location (out ! i))
            = offsetAt doc (vscode_Range.end (vscode_Diagnostic.range (kept ! i))))"
  unfolding out_def kept_def doc_def self'_def getDiagnostics_def Let_def
  by simp

theorem getDiagnostics_translation_witness:
  "length (fst (getDiagnostics ex_vscode VscodeCssService_new ex_cssDocument ex_context)) = 2
   \<and> fst (getDiagnostics ex_vscode VscodeCssService_new ex_cssDocument ex_context) ! 0
       = \<lparr>LitCssDiagnostic.severity = ''error'',
          LitCssDiagnostic.location = \<lparr>Range.start = 104, Range.end = 109\<rparr>,
          LitCssDiagnostic.message = ''unknown property''\<rparr>
   \<and> fst (getDiagnostics ex_vscode VscodeCssService_new ex_cssDocument ex_context) ! 1
       = \<lparr>LitCssDiagnostic.severity = ''warning'',
          LitCssDiagnostic.location = \<lparr>Range.start = 112, Range.end = 201\<rparr>,
          LitCssDiagnostic.message = ''empty rule''\<rparr>"
  using getDiagnostics_translation [of ex_vscode VscodeCssService_new ex_cssDocument ex_context]
  by (simp add: ex_vscode_def ex_languageService_def ex_diagnostics_def ex_textDocument_def
        makeVscTextDocument_def scssService_def makeVscStylesheet_def)

text \<open>
  C9. \<open>getDiagnostics\<close> drops the diagnostics at the edges of the embedded document. The
  returned list is the translation of exactly those service diagnostics whose range starts
  on a line strictly between the first line (line 0) and the last line
  (line \<open>lineCount - 1\<close>): no returned diagnostic comes from a range starting on line 0 or
  on a line greater than or equal to \<open>lineCount - 1\<close>.
\<close>

theorem getDiagnostics_edges_suppressed:
  fixes vscode self document "context"
  defines "self' \<equiv> self\<lparr>dataProvider := update (dataProvider self) (store context)\<rparr>"
  defines "doc \<equiv> makeVscTextDocument vscode document"
  defines "inner \<equiv>
    filter (\<lambda>d. 0 < line (vscode_Range.start (vscode_Diagnostic.range d))
               \<and> line (vscode_Range.start (vscode_Diagnostic.range d)) + 1 < lineCount doc)
      (doValidation (scssService vscode self') doc (makeVscStylesheet vscode self' doc))"
  defines "out \<equiv> fst (getDiagnostics vscode self document context)"
  shows "map LitCssDiagnostic.message out = map vscode_Diagnostic.message inner
    \<and> map LitCssDiagnostic.location out =
        map (\<lambda>d. \<lparr>Range.start = offsetAt doc (vscode_Range.start (vscode_Diagnostic.range d)),
                   Range.end = offsetAt doc (vscode_Range.end (vscode_Diagnostic.range d))\<rparr>)
            inner
    \<and> (\<forall>d \<in> set inner.
          line (vscode_Range.start (vscode_Diagnostic.range d)) \<noteq> 0
        \<and> \<not> int (lineCount doc) - 1
              \<le> int (line (vscode_Range.start (vscode_Diagnostic.range d))))"
proof -
  have same: "(\<lambda>d. line (vscode_Range.start (vscode_Diagnostic.range d)) \<noteq> 0
               \<and> int (line (vscode_Range.start (vscode_Diagnostic.range d)))
                   < int (lineCount doc) - 1)
    = (\<lambda>d. 0 < line (vscode_Range.start (vscode_Diagnostic.range d))
               \<and> line (vscode_Range.start (vscode_Diagnostic.range d)) + 1 < lineCount doc)"
    by (rule ext) auto
  have "out = map (\<lambda>diagnostic.
                \<lparr>LitCssDiagnostic.severity =
                   (if vscode_Diagnostic.severity diagnostic = Some Error
                    then ''error'' else ''warning''),
                 LitCssDiagnostic.location =
                   \<lparr>Range.start =
                      offsetAt doc (vscode_Range.start (vscode_Diagnostic.range diagnostic)),
                    Range.end =
                      offsetAt doc (vscode_Range.end (vscode_Diagnostic.range diagnostic))\<rparr>,
                 LitCssDiagnostic.message = vscode_Diagnostic.message diagnostic\<rparr>) inner"
    unfolding out_def inner_def doc_def self'_def getDiagnostics_def Let_def same [unfolded doc_def]
    by simp
  then show ?thesis
    by (auto simp: inner_def comp_def)
qed

theorem getDiagnostics_edges_suppressed_witness:
  "map LitCssDiagnostic.message
       (fst (getDiagnostics ex_vscode VscodeCssService_new ex_cssDocument ex_context))
     = [''unknown property'', ''empty rule'']
   \<and> map LitCssDiagnostic.location
       (fst (getDiagnostics ex_vscode VscodeCssService_new ex_cssDocument ex_context))
     = [\<lparr>Range.start = 104, Range.end = 109\<rparr>, \<lparr>Range.start = 112, Range.end = 201\<rparr>]"
  using getDiagnostics_edges_suppressed
    [of ex_vscode VscodeCssService_new ex_cssDocument ex_context]
  by (simp add: ex_vscode_def ex_languageService_def ex_diagnostics_def ex_textDocument_def
        makeVscTextDocument_def scssService_def makeVscStylesheet_def)

lemma startsWith_char: "startsWith s [c] = (\<exists>r. s = c # r)"
  by (cases s) (auto simp: startsWith_def)

text \<open>
  C6. \<open>getCompletions\<close> returns one completion for each item of the CSS service's
  completion list, in the same order. Its name and its insert text are the item's label;
  its kind is \<open>unknown\<close> when the item has no kind and the translated kind otherwise; its
  kindModifiers is \<open>color\<close> exactly when the item's kind is Color and absent otherwise; its
  importance is \<open>low\<close> when the label starts with \<open>@\<close> or \<open>-\<close>, \<open>medium\<close> when it starts with
  \<open>:\<close> and \<open>high\<close> otherwise.
\<close>

theorem getCompletions_translation:
  fixes vscode lazy self document offset "context"
  defines "self' \<equiv> self\<lparr>dataProvider := update (dataProvider self) (store context)\<rparr>"
  defines "doc \<equiv> makeVscTextDocument vscode document"
  defines "its \<equiv>
    items (doComplete (cssService vscode self') doc (positionAt doc offset)
             (makeVscStylesheet vscode self' doc))"
  defines "out \<equiv> fst (getCompletions vscode lazy self document offset context)"
  shows "length out = length its
    \<and> (\<forall>i < length its.
          LitCompletion.name (out ! i) = label (its ! i)
        \<and> insert (out ! i) = label (its ! i)
        \<and> (CompletionItem.kind (its ! i) = None \<longrightarrow> LitCompletion.kind (out ! i) = ''unknown'')
        \<and> (\<forall>k. CompletionItem.kind (its ! i) = Some k
              \<longrightarrow> LitCompletion.kind (out ! i) = translateCompletionItemKind k)
        \<and> (kindModifiers (out ! i) = Some ''color''
              \<longleftrightarrow> CompletionItem.kind (its ! i) = Some Color)
        \<and> (CompletionItem.kind (its ! i) \<noteq> Some Color \<longrightarrow> kindModifiers (out ! i) = None)
        \<and> importance (out ! i) =
            (if (\<exists>r. label (its ! i) = CHR ''@'' # r) \<or> (\<exists>r. label (its ! i) = CHR ''-'' # r)
             then ''low''
             else if (\<exists>r. label (its ! i) = CHR '':'' # r) then ''medium''
             else ''high''))"
  unfolding out_def its_def doc_def self'_def getCompletions_def Let_def
  by (simp add: startsWith_char)

theorem getCompletions_translation_witness:
  "map LitCompletion.name
       (fst (getCompletions ex_vscode ex_lazy VscodeCssService_new ex_cssDocument 105 ex_context))
     = [''@media'', '':hover'', ''red'']
   \<and> map insert
       (fst (getCompletions ex_vscode ex_lazy VscodeCssService_new ex_cssDocument 105 ex_context))
     = [''@media'', '':hover'', ''red'']
   \<and> map LitCompletion.kind
       (fst (getCompletions ex_vscode ex_lazy VscodeCssService_new ex_cssDocument 105 ex_context))
     = [''keyword'', ''unknown'', ''constElement'']
   \<and> map kindModifiers
       (fst (getCompletions ex_vscode ex_lazy VscodeCssService_new ex_cssDocument 105 ex_context))
     = [None, None, Some ''color'']
   \<and> map importance
       (fst (getCompletions ex_vscode ex_lazy VscodeCssService_new ex_cssDocument 105 ex_context))
     = [''low'', ''medium'', ''high'']"
  using getCompletions_translation
    [of ex_vscode ex_lazy VscodeCssService_new ex_cssDocument 105 ex_context]
  by (simp add: getCompletions_def Let_def ex_vscode_def ex_languageService_def ex_items_def
        ex_textDocument_def makeVscTextDocument_def cssService_def makeVscStylesheet_def
        startsWith_def)

lemma getQuickInfo_loop_no_html:
  "\<forall>v. ContentCode ''html'' v \<notin> set cs \<Longrightarrow> fst (getQuickInfo_loop cs p s) = p"
proof (induction cs arbitrary: s)
  case Nil
  then show ?case by simp
next
  case (Cons c cs)
  then show ?case by (cases c) auto
qed

text \<open>
  C7. \<open>getQuickInfo\<close> returns nothing exactly when the hover of the language service is
  null or has no range. When it returns a quick info, the start and the end of its range
  are \<open>offsetAt\<close> of the virtual text document at the start and the end of the hover's
  range, and its primaryInfo is the empty string when no content of the hover is a
  \<open>{language, value}\<close> object with language \<open>html\<close>.
\<close>

theorem getQuickInfo_result:
  fixes vscode self document offset "context"
  defines "self' \<equiv> self\<lparr>dataProvider := update (dataProvider self) (store context)\<rparr>"
  defines "doc \<equiv> makeVscTextDocument vscode document"
  defines "hover \<equiv>
    doHover (scssService vscode self') doc (positionAt doc offset)
      (makeVscStylesheet vscode self' doc)"
  defines "result \<equiv> fst (getQuickInfo vscode self document offset context)"
  shows "(result = None \<longleftrightarrow> (hover = None \<or> (\<exists>h. hover = Some h \<and> Hover.range h = None)))
    \<and> (\<forall>q. result = Some q \<longrightarrow>
          (\<exists>h r. hover = Some h \<and> Hover.range h = Some r
             \<and> Range.start (LitQuickInfo.range q) = offsetAt doc (vscode_Range.start r)
             \<and> Range.end (LitQuickInfo.range q) = offsetAt doc (vscode_Range.end r)
             \<and> ((\<forall>v. ContentCode ''html'' v
                      \<notin> set (case contents h of
                                ContentArray array \<Rightarrow> array
                              | SingleContent content \<Rightarrow> [content]))
                  \<longrightarrow> primaryInfo q = '''')))"
proof (cases hover)
  case None
  then show ?thesis
    unfolding result_def hover_def doc_def self'_def getQuickInfo_def Let_def
    by simp
next
  case (Some h)
  note hov = Some
  show ?thesis
  proof (cases "Hover.range h")
    case None
    with hov show ?thesis
      unfolding result_def hover_def doc_def self'_def getQuickInfo_def Let_def
      by simp
  next
    case (Some r)
    with hov show ?thesis
      unfolding result_def hover_def doc_def self'_def getQuickInfo_def Let_def
      using getQuickInfo_loop_no_html
        [of "case contents h of ContentArray array \<Rightarrow> array | SingleContent content \<Rightarrow> [content]"
            None None]
      by (auto simp: split_def)
  qed
qed

theorem getQuickInfo_result_witness:
  "fst (getQuickInfo ex_vscode VscodeCssService_new ex_cssDocument 105 ex_context)
     = Some \<lparr>primaryInfo = '''', secondaryInfo = Some ''a colour'',
             LitQuickInfo.range = \<lparr>Range.start = 105, Range.end = 110\<rparr>\<rparr>
   \<and> fst (getQuickInfo ex_vscode VscodeCssService_new ex_cssDocument 5 ex_context) = None
   \<and> fst (getQuickInfo ex_vscode VscodeCssService_new ex_cssDocument 205 ex_context) = None"
  using
    getQuickInfo_result [of ex_vscode VscodeCssService_new ex_cssDocument 105 ex_context]
    getQuickInfo_result [of ex_vscode VscodeCssService_new ex_cssDocument 5 ex_context]
    getQuickInfo_result [of ex_vscode VscodeCssService_new ex_cssDocument 205 ex_context]
  by (simp add: getQuickInfo_def Let_def ex_vscode_def ex_languageService_def ex_hover_def
        ex_textDocument_def makeVscTextDocument_def scssService_def makeVscStylesheet_def)

section \<open>Properties of getHtmlData\<close>

lemma retype_attr_eq:
  "attr\<lparr>type := if SimpleType.kind (type attr) = ANY then h (HtmlTagAttr.name attr) else type attr\<rparr>
     = (if SimpleType.kind (type attr) = ANY then attr\<lparr>type := h (HtmlTagAttr.name attr)\<rparr> else attr)"
  by simp

lemma getHtmlData_tags_eq:
  "HtmlDataResult.tags (getHtmlData html5 parseHtmlData html5TagAttrType config) =
     map (\<lambda>tag. tag\<lparr>attributes :=
            map (\<lambda>attr. attr\<lparr>type :=
                   if SimpleType.kind (type attr) = ANY
                   then html5TagAttrType (HtmlTagAttr.name attr)
                   else type attr\<rparr>)
                (attributes tag)\<rparr>)
         (HtmlDataResult.tags (parseHtmlData
            \<lparr>version = 1,
             HTMLDataV1.tags = HTML5_TAGS html5,
             globalAttributes = HTML5_GLOBAL_ATTRIBUTES html5 @ HTML5_EVENTS html5,
             valueSets = HTML5_VALUE_MAP html5\<rparr>))
     @ [\<lparr>HtmlTag.name = ''svg'', attributes = [],
         hasDeclaration = Some False, HtmlTag.description = Some ''''\<rparr>]
     @ map (\<lambda>n. \<lparr>HtmlTag.name = n, attributes = [],
                   hasDeclaration = None, HtmlTag.description = None\<rparr>)
           (globalHtmlTags config)"
  by (simp add: getHtmlData_def Let_def comp_def)

lemma getHtmlData_globalAttrs_eq:
  "globalAttrs (getHtmlData html5 parseHtmlData html5TagAttrType config) =
     map (\<lambda>attr. attr\<lparr>type :=
            if SimpleType.kind (type attr) = ANY
            then html5TagAttrType (HtmlTagAttr.name attr)
            else type attr\<rparr>)
         (globalAttrs (parseHtmlData
            \<lparr>version = 1,
             HTMLDataV1.tags = HTML5_TAGS html5,
             globalAttributes = HTML5_GLOBAL_ATTRIBUTES html5 @ HTML5_EVENTS html5,
             valueSets = HTML5_VALUE_MAP html5\<rparr>))
     @ map (\<lambda>n. \<lparr>HtmlTagAttr.name = n, type = html5TagAttrType n\<rparr>)
           (globalHtmlAttributes config)"
  by (simp add: getHtmlData_def Let_def comp_def)

text \<open>
  C1, as amended. For every configuration the returned tag list is the parsed HTML5 tag
  list, in which every tag attribute whose type has kind ANY has its type replaced by
  \<open>html5TagAttrType\<close> of the attribute's name, extended with an \<open>svg\<close> tag (empty attributes,
  hasDeclaration false, empty description) followed by exactly one tag per name in
  \<open>config.globalHtmlTags\<close>, each with that name and an empty attribute list. The names of
  the returned tags are the parsed names, then \<open>svg\<close>, then the configured names.
\<close>

theorem getHtmlData_tags:
  fixes html5 parseHtmlData html5TagAttrType config
  defines "parsed \<equiv> parseHtmlData
            \<lparr>version = 1,
             HTMLDataV1.tags = HTML5_TAGS html5,
             globalAttributes = HTML5_GLOBAL_ATTRIBUTES html5 @ HTML5_EVENTS html5,
             valueSets = HTML5_VALUE_MAP html5\<rparr>"
  defines "returned \<equiv>
    HtmlDataResult.tags (getHtmlData html5 parseHtmlData html5TagAttrType config)"
  shows "returned =
      map (\<lambda>tag. tag\<lparr>attributes :=
             map (\<lambda>attr. if SimpleType.kind (type attr) = ANY
                          then attr\<lparr>type := html5TagAttrType (HtmlTagAttr.name attr)\<rparr>
                          else attr)
                 (attributes tag)\<rparr>)
          (HtmlDataResult.tags parsed)
      @ [\<lparr>HtmlTag.name = ''svg'', attributes = [],
          hasDeclaration = Some False, HtmlTag.description = Some ''''\<rparr>]
      @ map (\<lambda>n. \<lparr>HtmlTag.name = n, attributes = [],
                    hasDeclaration = None, HtmlTag.description = None\<rparr>)
            (globalHtmlTags config)
    \<and> map HtmlTag.name returned =
        map HtmlTag.name (HtmlDataResult.tags parsed) @ [''svg''] @ globalHtmlTags config
    \<and> length returned =
        length (HtmlDataResult.tags parsed) + 1 + length (globalHtmlTags config)"
  unfolding returned_def parsed_def getHtmlData_tags_eq retype_attr_eq
  by (simp add: comp_def)

theorem getHtmlData_tags_witness:
  "HtmlDataResult.tags (getHtmlData ex_html5 ex_parseHtmlData ex_html5TagAttrType ex_config)
     = [\<lparr>HtmlTag.name = ''a'',
         attributes =
           [\<lparr>HtmlTagAttr.name = ''href'',
             type = \<lparr>SimpleType.kind = OtherSimpleTypeKind ''STRING'', rest = Some ''href''\<rparr>\<rparr>],
         hasDeclaration = None, HtmlTag.description = None\<rparr>,
        \<lparr>HtmlTag.name = ''svg'', attributes = [],
         hasDeclaration = Some False, HtmlTag.description = Some ''''\<rparr>,
        \<lparr>HtmlTag.name = ''my-element'', attributes = [],
         hasDeclaration = None, HtmlTag.description = None\<rparr>]"
  using getHtmlData_tags [of ex_html5 ex_parseHtmlData ex_html5TagAttrType ex_config]
  by (simp add: ex_html5_def ex_parseHtmlData_def ex_html5TagAttrType_def ex_config_def)

text \<open>
  C1, as stated, fails: with a parsed tag \<open>a\<close> whose attribute \<open>href\<close> has kind ANY, the
  returned tag list is not the parsed tag list followed by the \<open>svg\<close> tag and the tag of
  the configured name \<open>my-element\<close>, because the type of \<open>href\<close> has been replaced.
\<close>

theorem getHtmlData_tags_counterexample:
  "HtmlDataResult.tags (getHtmlData ex_html5 ex_parseHtmlData ex_html5TagAttrType ex_config)
     \<noteq> HtmlDataResult.tags
           (ex_parseHtmlData
              \<lparr>version = 1,
               HTMLDataV1.tags = HTML5_TAGS ex_html5,
               globalAttributes = HTML5_GLOBAL_ATTRIBUTES ex_html5 @ HTML5_EVENTS ex_html5,
               valueSets = HTML5_VALUE_MAP ex_html5\<rparr>)
         @ [\<lparr>HtmlTag.name = ''svg'', attributes = [],
             hasDeclaration = Some False, HtmlTag.description = Some ''''\<rparr>,
            \<lparr>HtmlTag.name = ''my-element'', attributes = [],
             hasDeclaration = None, HtmlTag.description = None\<rparr>]"
  by (simp add: getHtmlData_def Let_def ex_html5_def ex_parseHtmlData_def
        ex_html5TagAttrType_def ex_config_def)

text \<open>
  C2, as amended. In the result of \<open>getHtmlData\<close> every attribute, of a tag or global, whose
  type has kind ANY after the merge has its type replaced by \<open>html5TagAttrType\<close> of its name,
  and every attribute with a type of another kind is unchanged. In particular every name in
  \<open>config.globalHtmlAttributes\<close> appears in the returned globalAttrs with the type
  \<open>html5TagAttrType\<close> gives for it. A returned attribute has a type of kind ANY only when
  that type is what \<open>html5TagAttrType\<close> returned for its name.
\<close>

theorem getHtmlData_types:
  fixes html5 parseHtmlData html5TagAttrType config
  defines "parsed \<equiv> parseHtmlData
            \<lparr>version = 1,
             HTMLDataV1.tags = HTML5_TAGS html5,
             globalAttributes = HTML5_GLOBAL_ATTRIBUTES html5 @ HTML5_EVENTS html5,
             valueSets = HTML5_VALUE_MAP html5\<rparr>"
  defines "returned \<equiv> getHtmlData html5 parseHtmlData html5TagAttrType config"
  shows "globalAttrs returned =
      map (\<lambda>attr. if SimpleType.kind (type attr) = ANY
                   then attr\<lparr>type := html5TagAttrType (HtmlTagAttr.name attr)\<rparr>
                   else attr)
          (globalAttrs parsed
           @ map (\<lambda>n. \<lparr>HtmlTagAttr.name = n, type = \<lparr>SimpleType.kind = ANY, rest = None\<rparr>\<rparr>)
                 (globalHtmlAttributes config))
    \<and> map attributes (HtmlDataResult.tags returned) =
        map (\<lambda>tag. map (\<lambda>attr. if SimpleType.kind (type attr) = ANY
                                 then attr\<lparr>type := html5TagAttrType (HtmlTagAttr.name attr)\<rparr>
                                 else attr)
                        (attributes tag))
            (HtmlDataResult.tags parsed)
        @ replicate (1 + length (globalHtmlTags config)) []
    \<and> (\<forall>n \<in> set (globalHtmlAttributes config).
          \<lparr>HtmlTagAttr.name = n, type = html5TagAttrType n\<rparr> \<in> set (globalAttrs returned))
    \<and> (\<forall>attr \<in> set (globalAttrs returned).
          SimpleType.kind (type attr) = ANY
            \<longrightarrow> type attr = html5TagAttrType (HtmlTagAttr.name attr))
    \<and> (\<forall>tag \<in> set (HtmlDataResult.tags returned). \<forall>attr \<in> set (attributes tag).
          SimpleType.kind (type attr) = ANY
            \<longrightarrow> type attr = html5TagAttrType (HtmlTagAttr.name attr))"
proof -
  have g: "globalAttrs returned =
      map (\<lambda>attr. if SimpleType.kind (type attr) = ANY
                   then attr\<lparr>type := html5TagAttrType (HtmlTagAttr.name attr)\<rparr>
                   else attr) (globalAttrs parsed)
      @ map (\<lambda>n. \<lparr>HtmlTagAttr.name = n, type = html5TagAttrType n\<rparr>)
            (globalHtmlAttributes config)"
    unfolding returned_def parsed_def getHtmlData_globalAttrs_eq retype_attr_eq ..
  have t: "HtmlDataResult.tags returned =
      map (\<lambda>tag. tag\<lparr>attributes :=
             map (\<lambda>attr. if SimpleType.kind (type attr) = ANY
                          then attr\<lparr>type := html5TagAttrType (HtmlTagAttr.name attr)\<rparr>
                          else attr)
                 (attributes tag)\<rparr>)
          (HtmlDataResult.tags parsed)
      @ [\<lparr>HtmlTag.name = ''svg'', attributes = [],
          hasDeclaration = Some False, HtmlTag.description = Some ''''\<rparr>]
      @ map (\<lambda>n. \<lparr>HtmlTag.name = n, attributes = [],
                    hasDeclaration = None, HtmlTag.description = None\<rparr>)
            (globalHtmlTags config)"
    unfolding returned_def parsed_def getHtmlData_tags_eq retype_attr_eq ..
  have c1: "globalAttrs returned =
      map (\<lambda>attr. if SimpleType.kind (type attr) = ANY
                   then attr\<lparr>type := html5TagAttrType (HtmlTagAttr.name attr)\<rparr>
                   else attr)
          (globalAttrs parsed
           @ map (\<lambda>n. \<lparr>HtmlTagAttr.name = n, type = \<lparr>SimpleType.kind = ANY, rest = None\<rparr>\<rparr>)
                 (globalHtmlAttributes config))"
    by (simp add: g comp_def)
  have c2: "map attributes (HtmlDataResult.tags returned) =
        map (\<lambda>tag. map (\<lambda>attr. if SimpleType.kind (type attr) = ANY
                                 then attr\<lparr>type := html5TagAttrType (HtmlTagAttr.name attr)\<rparr>
                                 else attr)
                        (attributes tag))
            (HtmlDataResult.tags parsed)
        @ replicate (1 + length (globalHtmlTags config)) []"
    by (simp add: t comp_def map_replicate_const)
  have c3: "\<forall>n \<in> set (globalHtmlAttributes config).
          \<lparr>HtmlTagAttr.name = n, type = html5TagAttrType n\<rparr> \<in> set (globalAttrs returned)"
    by (simp add: g)
  have c4: "\<forall>attr \<in> set (globalAttrs returned).
          SimpleType.kind (type attr) = ANY
            \<longrightarrow> type attr = html5TagAttrType (HtmlTagAttr.name attr)"
    by (auto simp: g split: if_splits)
  have c5: "\<forall>tag \<in> set (HtmlDataResult.tags returned). \<forall>attr \<in> set (attributes tag).
          SimpleType.kind (type attr) = ANY
            \<longrightarrow> type attr = html5TagAttrType (HtmlTagAttr.name attr)"
    by (auto simp: t split: if_splits)
  from c1 c2 c3 c4 c5 show ?thesis by blast
qed

theorem getHtmlData_types_witness:
  "globalAttrs (getHtmlData ex_html5 ex_parseHtmlData ex_html5TagAttrType ex_config)
     = [\<lparr>HtmlTagAttr.name = ''id'',
         type = \<lparr>SimpleType.kind = OtherSimpleTypeKind ''STRING'', rest = None\<rparr>\<rparr>,
        \<lparr>HtmlTagAttr.name = ''onclick'',
         type = \<lparr>SimpleType.kind = OtherSimpleTypeKind ''STRING'', rest = None\<rparr>\<rparr>,
        \<lparr>HtmlTagAttr.name = ''my-attr'',
         type = \<lparr>SimpleType.kind = OtherSimpleTypeKind ''STRING'', rest = Some ''my-attr''\<rparr>\<rparr>]
   \<and> map attributes
       (HtmlDataResult.tags
          (getHtmlData ex_html5 ex_parseHtmlData ex_html5TagAttrType ex_config))
     = [[\<lparr>HtmlTagAttr.name = ''href'',
          type = \<lparr>SimpleType.kind = OtherSimpleTypeKind ''STRING'', rest = Some ''href''\<rparr>\<rparr>],
        [], []]"
  using getHtmlData_types [of ex_html5 ex_parseHtmlData ex_html5TagAttrType ex_config]
  by (simp add: ex_html5_def ex_parseHtmlData_def ex_html5TagAttrType_def ex_config_def)

text \<open>
  C2, as stated, fails where \<open>html5TagAttrType\<close> knows no type for a configured name and
  answers with a type of kind ANY: the name \<open>my-attr\<close> of the configuration is then
  returned with a type of kind ANY.
\<close>

theorem getHtmlData_types_counterexample:
  "globalHtmlAttributes ex_config = [''my-attr'']
   \<and> HtmlTagAttr.name
        (last (globalAttrs
           (getHtmlData ex_html5 ex_parseHtmlData ex_html5TagAttrType_unknown ex_config)))
      = ''my-attr''
   \<and> SimpleType.kind (type
        (last (globalAttrs
           (getHtmlData ex_html5 ex_parseHtmlData ex_html5TagAttrType_unknown ex_config))))
      = ANY"
  by (simp add: getHtmlData_def Let_def ex_html5_def ex_parseHtmlData_def
        ex_html5TagAttrType_unknown_def ex_config_def)

section \<open>Properties of completionsAtOffset\<close>

text \<open>
  C3. \<open>completionsAtOffset\<close> dispatches on the position with a fixed priority. If an
  attribute name intersects the offset, it returns the attribute completions of that
  attribute's node, each with its range set to the location of the attribute name.
  Otherwise, if an attribute assignment intersects, it returns the attribute value
  completions of the assignment. Otherwise, if an attribute area intersects, it returns the
  attribute completions of that node. Otherwise, if the word before the offset is \<open><\<close>, it
  returns the tag name completions. Otherwise it returns the empty list.
\<close>

theorem completionsAtOffset_dispatch:
  fixes getPositionContextInDocument completionsForHtmlAttrs completionsForHtmlAttrValues
    completionsForHtmlNodes document offset "context"
  defines "result \<equiv>
    completionsAtOffset getPositionContextInDocument completionsForHtmlAttrs
      completionsForHtmlAttrValues completionsForHtmlNodes document offset context"
  defines "attrName \<equiv> htmlAttrNameAtOffset document offset"
  defines "attrAssignment \<equiv> htmlAttrAssignmentAtOffset document offset"
  defines "attrArea \<equiv> htmlAttrAreaAtOffset document offset"
  defines "positionContext \<equiv> getPositionContextInDocument document offset"
  shows "(\<forall>attr. attrName = Some attr \<longrightarrow>
            result =
              map (\<lambda>entry. entry\<lparr>LitCompletion.range :=
                     Some (HtmlNodeAttrLocation.name (HtmlNodeAttr.location attr))\<rparr>)
                  (completionsForHtmlAttrs (htmlNode attr) context)
          \<and> (\<forall>entry \<in> set result.
                LitCompletion.range entry
                  = Some (HtmlNodeAttrLocation.name (HtmlNodeAttr.location attr))))
    \<and> (\<forall>assignment. attrName = None \<and> attrAssignment = Some assignment \<longrightarrow>
            result = completionsForHtmlAttrValues assignment context)
    \<and> (\<forall>node. attrName = None \<and> attrAssignment = None \<and> attrArea = Some node \<longrightarrow>
            result = completionsForHtmlAttrs node context)
    \<and> (attrName = None \<and> attrAssignment = None \<and> attrArea = None
          \<and> beforeWord positionContext = ''<'' \<longrightarrow>
            result = completionsForHtmlNodes positionContext context)
    \<and> (attrName = None \<and> attrAssignment = None \<and> attrArea = None
          \<and> beforeWord positionContext \<noteq> ''<'' \<longrightarrow>
            result = [])"
  unfolding result_def attrName_def attrAssignment_def attrArea_def positionContext_def
    completionsAtOffset_def Let_def
  by auto

theorem completionsAtOffset_dispatch_witness:
  "completionsAtOffset ex_getPositionContextInDocument ex_completionsForHtmlAttrs
      ex_completionsForHtmlAttrValues ex_completionsForHtmlNodes ex_htmlDocument 12 ex_context
     = [(ex_completion ''input.value'')\<lparr>LitCompletion.range :=
           Some \<lparr>Range.start = 10, Range.end = 14\<rparr>\<rparr>,
        (ex_completion ''input.type'')\<lparr>LitCompletion.range :=
           Some \<lparr>Range.start = 10, Range.end = 14\<rparr>\<rparr>]
   \<and> completionsAtOffset ex_getPositionContextInDocument ex_completionsForHtmlAttrs
      ex_completionsForHtmlAttrValues ex_completionsForHtmlNodes ex_htmlDocument 20 ex_context
     = [ex_completion ''value=text'']
   \<and> completionsAtOffset ex_getPositionContextInDocument ex_completionsForHtmlAttrs
      ex_completionsForHtmlAttrValues ex_completionsForHtmlNodes ex_htmlDocument 30 ex_context
     = [ex_completion ''input.value'', ex_completion ''input.type'']
   \<and> completionsAtOffset ex_getPositionContextInDocument ex_completionsForHtmlAttrs
      ex_completionsForHtmlAttrValues ex_completionsForHtmlNodes ex_htmlDocument 40 ex_context
     = [ex_completion ''my-element'']
   \<and> completionsAtOffset ex_getPositionContextInDocument ex_completionsForHtmlAttrs
      ex_completionsForHtmlAttrValues ex_completionsForHtmlNodes ex_htmlDocument 50 ex_context
     = []"
  using
    completionsAtOffset_dispatch [of ex_htmlDocument 12 ex_getPositionContextInDocument
      ex_completionsForHtmlAttrs ex_completionsForHtmlAttrValues ex_completionsForHtmlNodes
      ex_context]
    completionsAtOffset_dispatch [of ex_htmlDocument 20 ex_getPositionContextInDocument
      ex_completionsForHtmlAttrs ex_completionsForHtmlAttrValues ex_completionsForHtmlNodes
      ex_context]
    completionsAtOffset_dispatch [of ex_htmlDocument 30 ex_getPositionContextInDocument
      ex_completionsForHtmlAttrs ex_completionsForHtmlAttrValues ex_completionsForHtmlNodes
      ex_context]
    completionsAtOffset_dispatch [of ex_htmlDocument 40 ex_getPositionContextInDocument
      ex_completionsForHtmlAttrs ex_completionsForHtmlAttrValues ex_completionsForHtmlNodes
      ex_context]
    completionsAtOffset_dispatch [of ex_htmlDocument 50 ex_getPositionContextInDocument
      ex_completionsForHtmlAttrs ex_completionsForHtmlAttrValues ex_completionsForHtmlNodes
      ex_context]
  by (simp add: ex_htmlDocument_def ex_getPositionContextInDocument_def
        ex_completionsForHtmlAttrs_def ex_completionsForHtmlAttrValues_def
        ex_completionsForHtmlNodes_def)

section \<open>Properties of the code fixes\<close>

text \<open>
  C10. Every value of \<open>LitCodeFix\<close> pairs its kind with a matching report. A fix has kind
  RENAME exactly when its htmlReport is an unknown-attribute or an unknown-tag diagnostic,
  kind CHANGE_LIT_MODIFIER exactly when it is a bool-modifier or a
  primitive-not-assignable-to-complex diagnostic, and kind IMPORT_COMPONENT exactly when
  it is a missing-import diagnostic; a fix has one of the three kinds, so no other
  combination of kind and report occurs.
\<close>

theorem LitCodeFix_kind_matches_report:
  "(codeFix_kind codeFix = RENAME \<longleftrightarrow>
      (\<exists>d. codeFix_htmlReport codeFix = LitHtmlDiagnosticUnknownAttribute d
          \<or> codeFix_htmlReport codeFix = LitHtmlDiagnosticUnknownTag d))
   \<and> (codeFix_kind codeFix = CHANGE_LIT_MODIFIER \<longleftrightarrow>
      (\<exists>d. codeFix_htmlReport codeFix = LitHtmlDiagnosticHtmlBoolMod d
          \<or> codeFix_htmlReport codeFix = LitHtmlDiagnosticPrimitiveNotAssignableToComplex d))
   \<and> (codeFix_kind codeFix = IMPORT_COMPONENT \<longleftrightarrow>
      (\<exists>d. codeFix_htmlReport codeFix = LitHtmlDiagnosticMissingImport d))
   \<and> (codeFix_kind codeFix = RENAME \<or> codeFix_kind codeFix = CHANGE_LIT_MODIFIER
        \<or> codeFix_kind codeFix = IMPORT_COMPONENT)
   \<and> (\<forall>d. codeFix_htmlReport codeFix \<noteq> LitHtmlDiagnosticOther d)"
proof (cases codeFix)
  case (CodeFixRename m r acts)
  then show ?thesis by (cases r) auto
next
  case (CodeFixChangeLitModifier m r acts)
  then show ?thesis by (cases r) auto
next
  case (CodeFixImportComponent m r acts)
  then show ?thesis by (cases r) auto
qed

theorem LitCodeFix_kind_matches_report_witness:
  "codeFix_kind (CodeFixRename ''rename tag'' (Rename_UnknownTag ''my-elemnt'') [()]) = RENAME
   \<and> codeFix_htmlReport (CodeFixRename ''rename tag'' (Rename_UnknownTag ''my-elemnt'') [()])
       = LitHtmlDiagnosticUnknownTag ''my-elemnt''
   \<and> codeFix_kind
        (CodeFixImportComponent ''import'' (ImportComponent_MissingImport ''my-element'') [()])
       = IMPORT_COMPONENT
   \<and> codeFix_htmlReport
        (CodeFixImportComponent ''import'' (ImportComponent_MissingImport ''my-element'') [()])
       = LitHtmlDiagnosticMissingImport ''my-element''"
  using
    LitCodeFix_kind_matches_report
      [of "CodeFixRename ''rename tag'' (Rename_UnknownTag ''my-elemnt'') [()]"]
    LitCodeFix_kind_matches_report
      [of "CodeFixImportComponent ''import'' (ImportComponent_MissingImport ''my-element'') [()]"]
  by simp

end
